theory Spec2Isabelle
  imports Main "HOL-Library.Word"
begin

section \<open>Python values used by the two pages\<close>

text \<open>
  The pages \<^verbatim>\<open>pages/1_Encrypt_Decrypt_Tool.py\<close> and \<^verbatim>\<open>pages/2_Zip_File_Tool.py\<close> are
  Streamlit scripts. Their text values are modelled as \<^typ>\<open>string\<close> (a list of
  characters with code points below 256), their byte strings as lists of 8-bit words.
  The string methods the pages call are written out for that range.
\<close>

type_synonym byte = "8 word"

abbreviation NL :: string where
  "NL \<equiv> [CHR 0x0A]"

definition startswith :: "string \<Rightarrow> string \<Rightarrow> bool" where
  "startswith s p = (take (length p) s = p)"

definition endswith :: "string \<Rightarrow> string \<Rightarrow> bool" where
  "endswith s p = (length p \<le> length s \<and> drop (length s - length p) s = p)"

text \<open>\<^verbatim>\<open>sub in s\<close> for strings.\<close>

fun contains :: "string \<Rightarrow> string \<Rightarrow> bool" where
  "contains sub [] = (sub = [])"
| "contains sub (c # cs) = (startswith (c # cs) sub \<or> contains sub cs)"

text \<open>\<^verbatim>\<open>str.lower()\<close>: A-Z and the upper-case letters of Latin-1 move up by 32.\<close>

definition lower_char :: "char \<Rightarrow> char" where
  "lower_char c =
     (let n = (of_char c :: nat)
      in if (65 \<le> n \<and> n \<le> 90) \<or> (192 \<le> n \<and> n \<le> 222 \<and> n \<noteq> 215)
         then char_of (n + 32) else c)"

definition lower :: "string \<Rightarrow> string" where
  "lower s = map lower_char s"

text \<open>\<^verbatim>\<open>str.strip()\<close>: white space is removed at both ends.\<close>

definition isspace :: "char \<Rightarrow> bool" where
  "isspace c =
     (let n = (of_char c :: nat)
      in (9 \<le> n \<and> n \<le> 13) \<or> (28 \<le> n \<and> n \<le> 32) \<or> n = 133 \<or> n = 160)"

definition strip :: "string \<Rightarrow> string" where
  "strip s = rev (dropWhile isspace (rev (dropWhile isspace s)))"

text \<open>\<^verbatim>\<open>sep.join(xs)\<close>.\<close>

fun join :: "string \<Rightarrow> string list \<Rightarrow> string" where
  "join sep [] = []"
| "join sep [x] = x"
| "join sep (x # y # ys) = x @ sep @ join sep (y # ys)"

text \<open>\<^verbatim>\<open>str(n)\<close> for the integers the pages format.\<close>

definition digit_char :: "nat \<Rightarrow> char" where
  "digit_char d = char_of (48 + d)"

fun str_nat :: "nat \<Rightarrow> string" where
  "str_nat n = (if n < 10 then [digit_char n] else str_nat (n div 10) @ [digit_char (n mod 10)])"

declare str_nat.simps [simp del]

definition str_int :: "int \<Rightarrow> string" where
  "str_int i = (if i < 0 then CHR ''-'' # str_nat (nat (- i)) else str_nat (nat i))"

text \<open>\<^verbatim>\<open>bytes.hex(' ')\<close>: two lower-case hexadecimal digits per byte, separated by spaces.\<close>

definition hex_digit :: "nat \<Rightarrow> char" where
  "hex_digit d = (if d < 10 then char_of (48 + d) else char_of (87 + d))"

definition hex_byte :: "byte \<Rightarrow> string" where
  "hex_byte b = [hex_digit (unat b div 16), hex_digit (unat b mod 16)]"

definition hex_sep :: "byte list \<Rightarrow> string" where
  "hex_sep bs = join '' '' (map hex_byte bs)"

text \<open>
  \<^verbatim>\<open>os.path.join(a, b)\<close> on POSIX: an absolute second part replaces the first, and a
  separator is inserted unless the first part is empty or already ends with one.
\<close>

definition os_path_join :: "string \<Rightarrow> string \<Rightarrow> string" where
  "os_path_join a b =
     (if startswith b ''/'' then b
      else if a = [] \<or> endswith a ''/'' then a @ b
      else a @ ''/'' @ b)"

text \<open>
  What the pages take from the Python library and do not compute themselves:
  the MIME type guessed from a file name, UTF-8 decoding, \<^verbatim>\<open>str.splitlines\<close>, and the
  formatting of a quotient with two decimals (\<^verbatim>\<open>f"{a / b:.2f}"\<close>).
\<close>

record pylib =
  guess_type :: "string \<Rightarrow> string option"
  decode_utf8 :: "byte list \<Rightarrow> string option"
  splitlines :: "string \<Rightarrow> string list"
  format_2f :: "nat \<Rightarrow> nat \<Rightarrow> string"

section \<open>The host: files, processes, user interface\<close>

text \<open>
  The file system maps a path, as written, to a regular file with its bytes or to a
  directory. Paths are compared literally and permissions are not modelled.
\<close>

datatype node = File "byte list" | Dir

type_synonym filesystem = "string \<Rightarrow> node option"

text \<open>Exceptions carry the text that \<^verbatim>\<open>str(e)\<close> gives.\<close>

datatype exc = Exc string

fun str_exc :: "exc \<Rightarrow> string" where
  "str_exc (Exc m) = m"

text \<open>
  The path as the text of an \<^verbatim>\<open>OSError\<close> shows it: between single quotes (for a path with
  no character that \<^verbatim>\<open>repr\<close> would escape).
\<close>

definition quoted :: "string \<Rightarrow> string" where
  "quoted p = [CHR 0x27] @ p @ [CHR 0x27]"

definition os_path_exists :: "filesystem \<Rightarrow> string \<Rightarrow> bool" where
  "os_path_exists fs p = (fs p \<noteq> None)"

text \<open>\<^verbatim>\<open>open(p, "rb").read()\<close>.\<close>

definition read_file :: "filesystem \<Rightarrow> string \<Rightarrow> exc + byte list" where
  "read_file fs p =
     (case fs p of
        Some (File b) \<Rightarrow> Inr b
      | Some Dir \<Rightarrow> Inl (Exc (''[Errno 21] Is a directory: '' @ quoted p))
      | None \<Rightarrow> Inl (Exc (''[Errno 2] No such file or directory: '' @ quoted p)))"

text \<open>
  \<^verbatim>\<open>open(p, "wb").write(b)\<close>: creates or replaces the file; a directory cannot be opened.
  The directory that is to hold the file is taken to exist, as it does for a name without
  a separator written into the directory just created.
\<close>

definition write_file :: "filesystem \<Rightarrow> string \<Rightarrow> byte list \<Rightarrow> exc + filesystem" where
  "write_file fs p b =
     (case fs p of
        Some Dir \<Rightarrow> Inl (Exc (''[Errno 21] Is a directory: '' @ quoted p))
      | _ \<Rightarrow> Inr (fs(p \<mapsto> File b)))"

text \<open>
  \<^verbatim>\<open>try: os.remove(p) except OSError: pass\<close>: a regular file is removed; on a directory
  \<^verbatim>\<open>os.remove\<close> raises and the error is ignored.
\<close>

definition os_remove_quiet :: "filesystem \<Rightarrow> string \<Rightarrow> filesystem" where
  "os_remove_quiet fs p = (case fs p of Some (File b) \<Rightarrow> fs(p := None) | _ \<Rightarrow> fs)"

text \<open>A successful \<^verbatim>\<open>shutil.rmtree(d)\<close> removes \<open>d\<close> and every path below it.\<close>

definition rmtree :: "filesystem \<Rightarrow> string \<Rightarrow> filesystem" where
  "rmtree fs d = (\<lambda>p. if p = d \<or> startswith p (d @ ''/'') then None else fs p)"

text \<open>
  How a call of \<^verbatim>\<open>subprocess.run(command, check=False, capture_output=True, text=True,
  timeout=t)\<close> ends: the child returned (exit code, standard output, standard error),
  or \<^verbatim>\<open>subprocess.run\<close> killed the child at the time limit and raised
  \<^verbatim>\<open>TimeoutExpired\<close>, or the executable was not found, or another exception was raised.
\<close>

datatype completion =
    Completed int string string
  | TimeoutExpired
  | FileNotFoundError
  | Raised exc

text \<open>
  The parts of the host the pages cannot determine: which directory
  \<^verbatim>\<open>tempfile.mkdtemp()\<close> creates (or how it fails), what the external program does to
  the file system and how it ends, and whether removing a directory tree fails.
\<close>

record host =
  mkdtemp :: "filesystem \<Rightarrow> exc + string"
  subprocess_run :: "string list \<Rightarrow> nat \<Rightarrow> filesystem \<Rightarrow> completion \<times> filesystem"
  rmtree_fault :: "string \<Rightarrow> filesystem \<Rightarrow> exc option"

text \<open>One call of \<^verbatim>\<open>subprocess.run\<close>, as it happened.\<close>

record proc_call =
  argv :: "string list"
  timeout :: nat
  ended :: completion
  fs_after :: filesystem

text \<open>What a page renders: messages in the page or in one of its placeholders.\<close>

datatype slot = Page | StatusSlot | InputPreviewSlot | OutputPreviewSlot | DownloadSlot

datatype level = Error | Warning | Info | Success | Write | Markdown

datatype ui_event =
    Msg slot level string
  | Emptied slot
  | DownloadButton slot string "byte list" string string

text \<open>
  The world a page runs in: the file system, and the history of the directories created
  by \<^verbatim>\<open>tempfile.mkdtemp\<close>, of the processes run, and of what was rendered.
\<close>

record world =
  disk :: filesystem
  tmpdirs :: "string list"
  procs :: "proc_call list"
  ui :: "ui_event list"

definition emit :: "ui_event list \<Rightarrow> world \<Rightarrow> world" where
  "emit es w = w\<lparr>ui := ui w @ es\<rparr>"

definition spawn :: "host \<Rightarrow> string list \<Rightarrow> nat \<Rightarrow> world \<Rightarrow> completion \<times> world" where
  "spawn H command t w =
     (let (c, fs') = subprocess_run H command t (disk w)
      in (c, w\<lparr>disk := fs',
                procs := procs w @ [\<lparr>argv = command, timeout = t, ended = c, fs_after = fs'\<rparr>]\<rparr>))"

section \<open>The cipher page: helper functions\<close>

definition OPENSSL_COMMAND :: string where
  "OPENSSL_COMMAND = ''openssl''"

definition ENCRYPTION_CIPHER :: string where
  "ENCRYPTION_CIPHER = ''aes-256-cbc''"

definition PREVIEW_SIZE_LIMIT :: nat where
  "PREVIEW_SIZE_LIMIT = 5 * 1024 * 1024"

definition PREVIEW_LINES_LIMIT :: nat where
  "PREVIEW_LINES_LIMIT = 100"

text \<open>
  \<^verbatim>\<open>run_openssl_command(args, password)\<close> returns
  \<^verbatim>\<open>(success, stdout, stderr)\<close>; every exception of the call is caught.
\<close>

definition openssl_error_msg :: "int \<Rightarrow> string \<Rightarrow> string" where
  "openssl_error_msg rc err =
     ''OpenSSL Error (Exit Code '' @ str_int rc @ ''):'' @ NL @ ''```'' @ NL @ strip err @ NL @ ''```''"

definition openssl_warning_msg :: "string \<Rightarrow> string" where
  "openssl_warning_msg err =
     ''OpenSSL Messages (stderr):'' @ NL @ ''```'' @ NL @ strip err @ NL @ ''```''"

definition run_openssl_command ::
  "host \<Rightarrow> string list \<Rightarrow> string \<Rightarrow> world \<Rightarrow> (bool \<times> string \<times> string) \<times> world" where
  "run_openssl_command H args password w =
     (let command = (OPENSSL_COMMAND # args) @ [''-pass'', ''pass:'' @ password];
          (c, w1) = spawn H command 60 w
      in case c of
           Completed rc out err \<Rightarrow>
             (let success = (rc = 0);
                  w2 = (if \<not> success then emit [Msg Page Error (openssl_error_msg rc err)] w1
                        else if err \<noteq> [] then emit [Msg Page Warning (openssl_warning_msg err)] w1
                        else w1)
              in ((success, strip out, strip err), w2))
         | TimeoutExpired \<Rightarrow>
             ((False, [], ''Timeout expired''),
              emit [Msg Page Error ''OpenSSL command timed out after 60 seconds.''] w1)
         | FileNotFoundError \<Rightarrow>
             ((False, [], ''Command not found: '' @ OPENSSL_COMMAND),
              emit [Msg Page Error (''Error: The '' @ [CHR 0x27] @ OPENSSL_COMMAND @ [CHR 0x27] @
                '' command was not found. Is OpenSSL installed and in PATH?'')] w1)
         | Raised e \<Rightarrow>
             ((False, [], str_exc e),
              emit [Msg Page Error
                (''An unexpected error occurred while running OpenSSL: '' @ str_exc e)] w1))"

text \<open>
  \<^verbatim>\<open>get_file_preview(file_path)\<close>. \<^verbatim>\<open>os.path.getsize\<close> raises for a missing path, and
  \<^verbatim>\<open>open\<close> raises for a directory (whose own size is taken to lie between the two size
  tests); both end in the function's own handler.
\<close>

definition too_large_notice :: "pylib \<Rightarrow> nat \<Rightarrow> string" where
  "too_large_notice L file_size =
     ''(File is too large for preview: '' @ format_2f L file_size (1024 * 1024) @ '' MB)''"

definition text_preview :: "string \<Rightarrow> string" where
  "text_preview preview_content =
     ''**Preview (first '' @ str_nat PREVIEW_LINES_LIMIT @ '' lines or '' @
       str_nat (PREVIEW_SIZE_LIMIT div 1024) @ ''KB):**'' @ NL @ ''```'' @ NL @
       preview_content @ NL @ ''```''"

definition hex_preview :: "byte list \<Rightarrow> string" where
  "hex_preview content_bytes =
     ''(Binary file detected or Text decoding failed)'' @ NL @
     ''**Hex Preview (first 256 bytes):**'' @ NL @ ''```'' @ NL @
     hex_sep (take 256 content_bytes) @ NL @ ''...```''"

definition preview_error :: "exc \<Rightarrow> string" where
  "preview_error e = ''(Error generating preview: '' @ str_exc e @ '')''"

definition preview_content_of :: "pylib \<Rightarrow> string \<Rightarrow> string" where
  "preview_content_of L content_str =
     (let lines = splitlines L content_str
      in if length lines > PREVIEW_LINES_LIMIT
         then join NL (take PREVIEW_LINES_LIMIT lines) @ NL @ ''... (truncated)''
         else content_str)"

definition get_file_preview :: "pylib \<Rightarrow> filesystem \<Rightarrow> string \<Rightarrow> string" where
  "get_file_preview L fs file_path =
     (case fs file_path of
        None \<Rightarrow> preview_error (Exc (''[Errno 2] No such file or directory: '' @ quoted file_path))
      | Some Dir \<Rightarrow> preview_error (Exc (''[Errno 21] Is a directory: '' @ quoted file_path))
      | Some (File bytes) \<Rightarrow>
          (let file_size = length bytes
           in if file_size = 0 then ''(File is empty)''
              else if file_size > PREVIEW_SIZE_LIMIT then too_large_notice L file_size
              else
                (let is_likely_text =
                       (case guess_type L file_path of
                          None \<Rightarrow> False
                        | Some mime_type \<Rightarrow> mime_type \<noteq> [] \<and> startswith mime_type ''text'');
                     content_bytes = take PREVIEW_SIZE_LIMIT bytes
                 in if is_likely_text
                    then (case decode_utf8 L content_bytes of
                            Some content_str \<Rightarrow> text_preview (preview_content_of L content_str)
                          | None \<Rightarrow> hex_preview content_bytes)
                    else hex_preview content_bytes)))"

section \<open>The archive page: helper functions\<close>

definition ZIP_COMMAND :: string where
  "ZIP_COMMAND = ''zip''"

text \<open>
  \<^verbatim>\<open>run_zip_command(args, password_for_masking)\<close>. The masked copy of the command that
  the function builds first is never displayed and is left out.
\<close>

definition zip_nothing_msg :: "int \<Rightarrow> string \<Rightarrow> string" where
  "zip_nothing_msg rc err =
     ''Zip Error (Exit Code '' @ str_int rc @ ''): Nothing to zip. Check input file path.'' @
       NL @ ''```'' @ NL @ strip err @ NL @ ''```''"

definition zip_error_msg :: "int \<Rightarrow> string \<Rightarrow> string" where
  "zip_error_msg rc err =
     ''Zip Error (Exit Code '' @ str_int rc @ ''):'' @ NL @ ''```'' @ NL @ strip err @ NL @ ''```''"

definition zip_info_msg :: "string \<Rightarrow> string" where
  "zip_info_msg err = ''Zip Messages (stderr):'' @ NL @ ''```'' @ NL @ strip err @ NL @ ''```''"

definition run_zip_command ::
  "host \<Rightarrow> string list \<Rightarrow> string \<Rightarrow> world \<Rightarrow> (bool \<times> string \<times> string) \<times> world" where
  "run_zip_command H args password_for_masking w =
     (let command = ZIP_COMMAND # args;
          (c, w1) = spawn H command 120 w
      in case c of
           Completed rc out err \<Rightarrow>
             (let success = (rc = 0);
                  w2 = (if \<not> success
                        then (let err_lower = lower err
                              in if contains ''nothing to do'' err_lower
                                 then emit [Msg Page Error (zip_nothing_msg rc err)] w1
                                 else emit [Msg Page Error (zip_error_msg rc err)] w1)
                        else if err \<noteq> [] then emit [Msg Page Info (zip_info_msg err)] w1
                        else w1)
              in ((success, strip out, strip err), w2))
         | TimeoutExpired \<Rightarrow>
             ((False, [], ''Timeout expired''),
              emit [Msg Page Error ''Zip command timed out after 120 seconds.''] w1)
         | FileNotFoundError \<Rightarrow>
             ((False, [], ''Command not found: '' @ ZIP_COMMAND),
              emit [Msg Page Error (''Error: The '' @ [CHR 0x27] @ ZIP_COMMAND @ [CHR 0x27] @
                '' command was not found. Is it installed and in PATH?'')] w1)
         | Raised e \<Rightarrow>
             ((False, [], str_exc e),
              emit [Msg Page Error
                (''An unexpected error occurred while running zip: '' @ str_exc e)] w1))"

section \<open>Requests, session state and the cleanup shared by both pages\<close>

text \<open>
  What the user has entered when the run button is pressed with a file uploaded. The
  cipher page reads the confirmation only when it encrypts.
\<close>

record request =
  uploaded_name :: string
  uploaded_bytes :: "byte list"
  password :: string
  password_confirm :: string
  output_filename_user :: string

datatype operation = Encrypt | Decrypt

fun op_name :: "operation \<Rightarrow> string" where
  "op_name Encrypt = ''Encrypt''"
| "op_name Decrypt = ''Decrypt''"

text \<open>\<^verbatim>\<open>st.session_state\<close> of the cipher page and of the archive page.\<close>

record cipher_session =
  output_content :: "byte list option"
  output_filename :: "string option"
  operation_status :: "string option"

record zip_session =
  output_zip_content :: "byte list option"
  output_zip_filename :: "string option"
  zip_operation_status :: "string option"
  zip_clear_trigger :: nat

text \<open>
  The \<^verbatim>\<open>finally\<close> block of both pages:
  \<^verbatim>\<open>if temp_dir and os.path.exists(temp_dir): try: shutil.rmtree(temp_dir)
  except Exception as e: st.warning(...)\<close>. A failed removal leaves the files as they were.
\<close>

definition cleanup ::
  "host \<Rightarrow> (string \<Rightarrow> exc \<Rightarrow> string) \<Rightarrow> string option \<Rightarrow> world \<Rightarrow> world" where
  "cleanup H warning temp_dir w =
     (case temp_dir of
        None \<Rightarrow> w
      | Some d \<Rightarrow>
          if d \<noteq> [] \<and> os_path_exists (disk w) d
          then (case rmtree_fault H d (disk w) of
                  None \<Rightarrow> w\<lparr>disk := rmtree (disk w) d\<rparr>
                | Some e \<Rightarrow> emit [Msg Page Warning (warning d e)] w)
          else w)"

text \<open>\<^verbatim>\<open>temp_dir = tempfile.mkdtemp()\<close>, recorded in the history.\<close>

definition make_tmpdir :: "string \<Rightarrow> world \<Rightarrow> world" where
  "make_tmpdir d w = w\<lparr>disk := (disk w)(d \<mapsto> Dir), tmpdirs := tmpdirs w @ [d]\<rparr>"

section \<open>The cipher page: the run block\<close>

definition cipher_validate :: "operation \<Rightarrow> request \<Rightarrow> string option" where
  "cipher_validate operation r =
     (if password r = [] then Some ''Password cannot be empty.''
      else if operation = Encrypt \<and> password r \<noteq> password_confirm r
        then Some ''Passwords do not match.''
      else if output_filename_user r = [] then Some ''Output filename cannot be empty.''
      else None)"

definition cipher_args :: "operation \<Rightarrow> string \<Rightarrow> string \<Rightarrow> string list" where
  "cipher_args operation input_file_path output_file_path =
     [''enc'', ''-'' @ ENCRYPTION_CIPHER, ''-pbkdf2''] @
     (case operation of Decrypt \<Rightarrow> [''-d''] | Encrypt \<Rightarrow> [''-p'']) @
     [''-in'', input_file_path, ''-out'', output_file_path]"

definition mime_or_default :: "pylib \<Rightarrow> string \<Rightarrow> string" where
  "mime_or_default L name =
     (case guess_type L name of
        None \<Rightarrow> ''application/octet-stream''
      | Some m \<Rightarrow> if m = [] then ''application/octet-stream'' else m)"

definition filename_line :: "string \<Rightarrow> string" where
  "filename_line name = ''**Filename:** `'' @ name @ ''`''"

definition size_line :: "pylib \<Rightarrow> nat \<Rightarrow> string" where
  "size_line L n = ''**Size:** `'' @ format_2f L n 1024 @ '' KB`''"

text \<open>
  The branch on \<^verbatim>\<open>success and os.path.exists(output_file_path)\<close>. The first component
  is the exception that leaves the branch, if any: reading the output can raise after
  the status has been set.
\<close>

definition cipher_outcome ::
  "pylib \<Rightarrow> operation \<Rightarrow> request \<Rightarrow> string \<Rightarrow> bool \<Rightarrow> cipher_session \<Rightarrow> world \<Rightarrow>
     exc option \<times> cipher_session \<times> world" where
  "cipher_outcome L operation r output_file_path success s w =
     (if success \<and> os_path_exists (disk w) output_file_path
      then (let s1 = s\<lparr>operation_status := Some ''success''\<rparr>
            in case read_file (disk w) output_file_path of
                 Inl e \<Rightarrow> (Some e, s1, w)
               | Inr content \<Rightarrow>
                   (let name = output_filename_user r;
                        s2 = s1\<lparr>output_content := Some content, output_filename := Some name\<rparr>;
                        w1 = emit
                          [Msg StatusSlot Success (op_name operation @ '' successful!''),
                           Msg OutputPreviewSlot Write (filename_line name),
                           Msg OutputPreviewSlot Write (size_line L (length content)),
                           Msg OutputPreviewSlot Markdown
                             (get_file_preview L (disk w) output_file_path),
                           DownloadButton DownloadSlot (''Download '' @ name) content name
                             (mime_or_default L name)] w
                    in (None, s2, w1)))
      else (let s1 = s\<lparr>operation_status := Some ''fail''\<rparr>;
                w1 = emit [Msg StatusSlot Error (op_name operation @ '' failed. See details above.'')] w;
                w2 = (if os_path_exists (disk w1) output_file_path
                      then w1\<lparr>disk := os_remove_quiet (disk w1) output_file_path\<rparr>
                      else w1)
            in (None, s1, w2)))"

text \<open>
  The body of the \<^verbatim>\<open>try\<close>: the exception that ends it (if any), \<^verbatim>\<open>temp_dir\<close> as the
  \<^verbatim>\<open>finally\<close> block sees it, and the state reached.
\<close>

definition cipher_try ::
  "pylib \<Rightarrow> host \<Rightarrow> operation \<Rightarrow> request \<Rightarrow> cipher_session \<Rightarrow> world \<Rightarrow>
     exc option \<times> string option \<times> cipher_session \<times> world" where
  "cipher_try L H operation r s w =
     (case mkdtemp H (disk w) of
        Inl e \<Rightarrow> (Some e, None, s, w)
      | Inr temp_dir \<Rightarrow>
          (let w1 = make_tmpdir temp_dir w;
               input_file_path = os_path_join temp_dir (uploaded_name r);
               output_file_path = os_path_join temp_dir (output_filename_user r)
           in case write_file (disk w1) input_file_path (uploaded_bytes r) of
                Inl e \<Rightarrow> (Some e, Some temp_dir, s, w1)
              | Inr fs2 \<Rightarrow>
                  (let w2 = emit
                         [Msg InputPreviewSlot Write (filename_line (uploaded_name r)),
                          Msg InputPreviewSlot Write (size_line L (length (uploaded_bytes r))),
                          Msg InputPreviewSlot Markdown (get_file_preview L fs2 input_file_path)]
                         (w1\<lparr>disk := fs2\<rparr>);
                       args = cipher_args operation input_file_path output_file_path;
                       ((success, out, err), w3) = run_openssl_command H args (password r) w2;
                       (e, s', w4) = cipher_outcome L operation r output_file_path success s w3
                   in (e, Some temp_dir, s', w4))))"

definition cipher_except ::
  "exc option \<Rightarrow> cipher_session \<Rightarrow> world \<Rightarrow> cipher_session \<times> world" where
  "cipher_except raised s w =
     (case raised of
        None \<Rightarrow> (s, w)
      | Some e \<Rightarrow>
          (s\<lparr>operation_status := Some ''fail''\<rparr>,
           emit [Msg StatusSlot Error (''An error occurred during processing: '' @ str_exc e)] w))"

definition cipher_cleanup_warning :: "string \<Rightarrow> exc \<Rightarrow> string" where
  "cipher_cleanup_warning d e =
     ''Could not automatically clean up temporary directory '' @ d @ '': '' @ str_exc e"

text \<open>
  \<^verbatim>\<open>if run_button and uploaded_file:\<close> the whole block. A failed validation ends the script
  run with \<^verbatim>\<open>st.stop()\<close>.
\<close>

definition cipher_run ::
  "pylib \<Rightarrow> host \<Rightarrow> operation \<Rightarrow> request \<Rightarrow> cipher_session \<Rightarrow> world \<Rightarrow> cipher_session \<times> world" where
  "cipher_run L H operation r s w =
     (let s0 = s\<lparr>output_content := None, output_filename := None, operation_status := None\<rparr>;
          w0 = emit [Msg StatusSlot Info (''Processing '' @ op_name operation @ ''...''),
                     Emptied OutputPreviewSlot, Emptied DownloadSlot] w
      in case cipher_validate operation r of
           Some m \<Rightarrow> (s0, emit [Msg StatusSlot Error m] w0)
         | None \<Rightarrow>
             (let (raised, temp_dir, s1, w1) = cipher_try L H operation r s0 w0;
                  (s2, w2) = cipher_except raised s1 w1
              in (s2, cleanup H cipher_cleanup_warning temp_dir w2)))"

section \<open>The archive page: the run block\<close>

definition zip_validate :: "request \<Rightarrow> string option" where
  "zip_validate r =
     (if password r = [] then Some ''Password cannot be empty.''
      else if password r \<noteq> password_confirm r then Some ''Passwords do not match.''
      else if output_filename_user r = [] then Some ''Output ZIP filename cannot be empty.''
      else None)"

definition actual_output_filename :: "string \<Rightarrow> string" where
  "actual_output_filename name =
     (if \<not> endswith (lower name) ''.zip'' then name @ ''.zip'' else name)"

definition zip_suffix_warning :: "string \<Rightarrow> string" where
  "zip_suffix_warning actual =
     ''Output filename didn'' @ [CHR 0x27] @ ''t end with '' @ [CHR 0x27] @ ''.zip'' @ [CHR 0x27] @
     ''. Using '' @ [CHR 0x27] @ actual @ [CHR 0x27] @ ''.''"

definition zip_args :: "string \<Rightarrow> string \<Rightarrow> string \<Rightarrow> string list" where
  "zip_args pw output_file_path input_file_path =
     [''-j'', ''-e'', ''-P'', pw, output_file_path, input_file_path]"

definition zip_outcome ::
  "string \<Rightarrow> string \<Rightarrow> bool \<Rightarrow> zip_session \<Rightarrow> world \<Rightarrow> exc option \<times> zip_session \<times> world" where
  "zip_outcome actual output_file_path success s w =
     (if success \<and> os_path_exists (disk w) output_file_path
      then (let s1 = s\<lparr>zip_operation_status := Some ''success''\<rparr>
            in case read_file (disk w) output_file_path of
                 Inl e \<Rightarrow> (Some e, s1, w)
               | Inr content \<Rightarrow>
                   (let s2 = s1\<lparr>output_zip_content := Some content,
                                 output_zip_filename := Some actual\<rparr>;
                        w1 = emit
                          [Msg StatusSlot Success ''Password-protected ZIP created successfully!'',
                           DownloadButton DownloadSlot (''Download '' @ actual) content actual
                             ''application/zip''] w
                    in (None, s2, w1)))
      else (let s1 = s\<lparr>zip_operation_status := Some ''fail''\<rparr>;
                w1 = emit [Msg StatusSlot Error ''Failed to create ZIP file. See details above.''] w;
                w2 = (if os_path_exists (disk w1) output_file_path
                      then w1\<lparr>disk := os_remove_quiet (disk w1) output_file_path\<rparr>
                      else w1)
            in (None, s1, w2)))"

definition zip_try ::
  "host \<Rightarrow> request \<Rightarrow> string \<Rightarrow> zip_session \<Rightarrow> world \<Rightarrow>
     exc option \<times> string option \<times> zip_session \<times> world" where
  "zip_try H r actual s w =
     (case mkdtemp H (disk w) of
        Inl e \<Rightarrow> (Some e, None, s, w)
      | Inr temp_dir \<Rightarrow>
          (let w1 = make_tmpdir temp_dir w;
               input_file_path = os_path_join temp_dir (uploaded_name r);
               output_file_path = os_path_join temp_dir actual
           in case write_file (disk w1) input_file_path (uploaded_bytes r) of
                Inl e \<Rightarrow> (Some e, Some temp_dir, s, w1)
              | Inr fs2 \<Rightarrow>
                  (let w2 = w1\<lparr>disk := fs2\<rparr>;
                       args = zip_args (password r) output_file_path input_file_path;
                       ((success, out, err), w3) = run_zip_command H args (password r) w2;
                       (e, s', w4) = zip_outcome actual output_file_path success s w3
                   in (e, Some temp_dir, s', w4))))"

definition zip_except :: "exc option \<Rightarrow> zip_session \<Rightarrow> world \<Rightarrow> zip_session \<times> world" where
  "zip_except raised s w =
     (case raised of
        None \<Rightarrow> (s, w)
      | Some e \<Rightarrow>
          (s\<lparr>zip_operation_status := Some ''fail''\<rparr>,
           emit [Msg StatusSlot Error
             (''An error occurred during ZIP processing: '' @ str_exc e)] w))"

definition zip_cleanup_warning :: "string \<Rightarrow> exc \<Rightarrow> string" where
  "zip_cleanup_warning d e = ''Could not clean up temp dir '' @ d @ '': '' @ str_exc e"

definition zip_run :: "host \<Rightarrow> request \<Rightarrow> zip_session \<Rightarrow> world \<Rightarrow> zip_session \<times> world" where
  "zip_run H r s w =
     (let s0 = s\<lparr>output_zip_content := None, output_zip_filename := None,
                  zip_operation_status := None\<rparr>;
          w0 = emit [Msg StatusSlot Info ''Processing...'', Emptied DownloadSlot] w
      in case zip_validate r of
           Some m \<Rightarrow> (s0, emit [Msg StatusSlot Error m] w0)
         | None \<Rightarrow>
             (let actual = actual_output_filename (output_filename_user r);
                  w0' = (if \<not> endswith (lower (output_filename_user r)) ''.zip''
                         then emit [Msg Page Warning (zip_suffix_warning actual)] w0
                         else w0);
                  (raised, temp_dir, s1, w1) = zip_try H r actual s0 w0';
                  (s2, w2) = zip_except raised s1 w1
              in (s2, cleanup H zip_cleanup_warning temp_dir w2)))"

section \<open>The "Clear All" buttons and the identity of the input widgets\<close>

text \<open>
  Streamlit keeps the value of an input widget in the session under the widget's key:
  a widget rendered again under the same key shows the stored value, a widget rendered
  under a key that holds no value shows its default.
\<close>

type_synonym widget_state = "string \<Rightarrow> string option"

definition text_input :: "widget_state \<Rightarrow> string \<Rightarrow> string \<Rightarrow> string" where
  "text_input ws key dflt = (case ws key of Some v \<Rightarrow> v | None \<Rightarrow> dflt)"

text \<open>
  The cipher page gives its password fields the fixed keys \<^verbatim>\<open>pwd1\<close> and \<^verbatim>\<open>pwd2\<close>; its
  uploader and its output-name field carry no key, and no widget of the page depends on
  the session state that "Clear All" resets.
\<close>

definition cipher_widget_keys :: "cipher_session \<Rightarrow> string list" where
  "cipher_widget_keys s = [''pwd1'', ''pwd2'']"

definition cipher_clear_all :: "cipher_session \<Rightarrow> cipher_session" where
  "cipher_clear_all s =
     s\<lparr>output_content := None, output_filename := None, operation_status := None\<rparr>"

text \<open>
  The archive page builds the keys of its uploader, its two password fields and its
  output-name field from \<^verbatim>\<open>zip_clear_trigger\<close>.
\<close>

definition zip_widget_keys :: "zip_session \<Rightarrow> string list" where
  "zip_widget_keys s =
     [''zip_uploader_'' @ str_nat (zip_clear_trigger s),
      ''zip_pwd1_'' @ str_nat (zip_clear_trigger s),
      ''zip_pwd2_'' @ str_nat (zip_clear_trigger s),
      ''zip_output_name_'' @ str_nat (zip_clear_trigger s)]"

definition zip_clear_all :: "zip_session \<Rightarrow> zip_session" where
  "zip_clear_all s =
     s\<lparr>output_zip_content := None, output_zip_filename := None, zip_operation_status := None,
       zip_clear_trigger := zip_clear_trigger s + 1\<rparr>"

section \<open>A small concrete host\<close>

text \<open>
  A host on which the definitions can be run: a library that knows \<^verbatim>\<open>.txt\<close> files and
  decodes ASCII, and a stand-in for the two external programs. The stand-in for
  \<^verbatim>\<open>openssl enc\<close> shifts every byte by the length of the pass phrase argument (and back
  with \<^verbatim>\<open>-d\<close>); the stand-in for \<^verbatim>\<open>zip\<close> stores the input behind a two-byte header and
  reports \<^verbatim>\<open>Nothing to do\<close> when the input is missing.
\<close>

definition demo_decode :: "byte list \<Rightarrow> string option" where
  "demo_decode bs =
     (if list_all (\<lambda>b. unat b < 128) bs then Some (map (\<lambda>b. char_of (unat b)) bs) else None)"

fun demo_splitlines_from :: "string \<Rightarrow> string \<Rightarrow> string list" where
  "demo_splitlines_from cur [] = (if cur = [] then [] else [cur])"
| "demo_splitlines_from cur (c # cs) =
     (if c = CHR 0x0A then cur # demo_splitlines_from [] cs
      else demo_splitlines_from (cur @ [c]) cs)"

definition demo_lib :: pylib where
  "demo_lib =
     \<lparr>guess_type = (\<lambda>name. if endswith name ''.txt'' then Some ''text/plain'' else None),
      decode_utf8 = demo_decode,
      splitlines = demo_splitlines_from [],
      format_2f = (\<lambda>a b. str_nat (a div b) @ ''.'' @ str_nat ((a * 100 div b) mod 100))\<rparr>"

definition demo_shift :: "string \<Rightarrow> byte list \<Rightarrow> byte list" where
  "demo_shift pw x = map (\<lambda>b. b + of_nat (length pw)) x"

definition demo_unshift :: "string \<Rightarrow> byte list \<Rightarrow> byte list" where
  "demo_unshift pw x = map (\<lambda>b. b - of_nat (length pw)) x"

definition demo_tool :: "string list \<Rightarrow> nat \<Rightarrow> filesystem \<Rightarrow> completion \<times> filesystem" where
  "demo_tool command t fs =
     (if length command = 11 \<and> command ! 0 = ''openssl''
      then (case fs (command ! 6) of
              Some (File x) \<Rightarrow>
                (Completed 0 [] [],
                 fs(command ! 8 \<mapsto>
                      File (if command ! 4 = ''-d'' then demo_unshift (command ! 10) x
                            else demo_shift (command ! 10) x)))
            | _ \<Rightarrow> (Completed 1 [] ''Can not open input file'', fs))
      else if length command = 7 \<and> command ! 0 = ''zip''
      then (case fs (command ! 6) of
              Some (File x) \<Rightarrow> (Completed 0 [] [], fs(command ! 5 \<mapsto> File (80 # 75 # x)))
            | _ \<Rightarrow> (Completed 12 [] (''zip error: Nothing to do!'' @ NL), fs))
      else (Completed 2 [] ''usage'', fs))"

definition demo_host :: host where
  "demo_host =
     \<lparr>mkdtemp = (\<lambda>fs. Inr ''/tmp/tmpa1''),
      subprocess_run = demo_tool,
      rmtree_fault = (\<lambda>d fs. None)\<rparr>"

text \<open>A host whose external program never finishes in time and whose cleanup is refused.\<close>

definition stuck_host :: host where
  "stuck_host =
     \<lparr>mkdtemp = (\<lambda>fs. Inr ''/tmp/tmpb2''),
      subprocess_run = (\<lambda>command t fs. (TimeoutExpired, fs)),
      rmtree_fault = (\<lambda>d fs. Some (Exc ''[Errno 13] Permission denied''))\<rparr>"

definition demo_request :: request where
  "demo_request =
     \<lparr>uploaded_name = ''notes.txt'', uploaded_bytes = [104, 105],
      password = ''secret123'', password_confirm = ''secret123'',
      output_filename_user = ''notes.enc''\<rparr>"

definition fresh_cipher_session :: cipher_session where
  "fresh_cipher_session =
     \<lparr>output_content = None, output_filename = None, operation_status = None\<rparr>"

definition fresh_zip_session :: zip_session where
  "fresh_zip_session =
     \<lparr>output_zip_content = None, output_zip_filename = None, zip_operation_status = None,
      zip_clear_trigger = 0\<rparr>"

definition empty_world :: world where
  "empty_world = \<lparr>disk = Map.empty, tmpdirs = [], procs = [], ui = []\<rparr>"

text \<open>A request whose confirmation differs from its password.\<close>

definition mismatch_request :: request where
  "mismatch_request =
     \<lparr>uploaded_name = ''notes.txt'', uploaded_bytes = [104, 105],
      password = ''abc'', password_confirm = ''xyz'',
      output_filename_user = ''notes.enc''\<rparr>"

section \<open>Stages of a run block\<close>

text \<open>
  Names for intermediate values of a run block, used to state facts about it. First the
  steps of the \<^verbatim>\<open>try\<close> body up to the process: a directory is created and the upload is
  written into it; the result is the directory and the files then. Then the full command
  each page runs in that directory.
\<close>

definition staged :: "host \<Rightarrow> request \<Rightarrow> filesystem \<Rightarrow> (string \<times> filesystem) option" where
  "staged H r fs =
     (case mkdtemp H fs of
        Inl e \<Rightarrow> None
      | Inr d \<Rightarrow>
          (case write_file (fs(d \<mapsto> Dir)) (os_path_join d (uploaded_name r))
                  (uploaded_bytes r) of
             Inl e \<Rightarrow> None
           | Inr fs2 \<Rightarrow> Some (d, fs2)))"

definition cipher_command :: "operation \<Rightarrow> request \<Rightarrow> string \<Rightarrow> string list" where
  "cipher_command operation r d =
     (OPENSSL_COMMAND #
        cipher_args operation (os_path_join d (uploaded_name r))
          (os_path_join d (output_filename_user r))) @ [''-pass'', ''pass:'' @ password r]"

definition zip_command :: "request \<Rightarrow> string \<Rightarrow> string list" where
  "zip_command r d =
     ZIP_COMMAND #
       zip_args (password r) (os_path_join d (actual_output_filename (output_filename_user r)))
         (os_path_join d (uploaded_name r))"

text \<open>
  The bytes a page stores, given how the process ended and the files it left: the content
  of the regular file at the output path after an exit with code zero, nothing otherwise.
\<close>

definition captured :: "completion \<times> filesystem \<Rightarrow> string \<Rightarrow> byte list option" where
  "captured res p =
     (case fst res of
        Completed rc out err \<Rightarrow>
          if rc = 0 then (case snd res p of Some (File b) \<Rightarrow> Some b | _ \<Rightarrow> None) else None
      | _ \<Rightarrow> None)"


text \<open>The cipher session after a successful run.\<close>

definition used_cipher_session :: cipher_session where
  "used_cipher_session =
     \<lparr>output_content = Some [118, 119], output_filename = Some ''notes.enc'',
      operation_status = Some ''success''\<rparr>"

section \<open>The contract of the external cipher program\<close>















section \<open>Basic facts\<close>

text \<open>Facts that evaluate the string functions on literals.\<close>

lemmas char_eval = char_of_def bit_Suc_0_iff

lemmas text_eval = startswith_def endswith_def lower_def lower_char_def strip_def isspace_def
  str_int_def str_nat.simps digit_char_def char_eval

section \<open>Validation comes before any effect on the host\<close>

lemma cipher_run_invalid:
  "cipher_validate operation r = Some m \<Longrightarrow>
   cipher_run L H operation r s w =
     (s\<lparr>output_content := None, output_filename := None, operation_status := None\<rparr>,
      emit [Msg StatusSlot Error m]
        (emit [Msg StatusSlot Info (''Processing '' @ op_name operation @ ''...''),
               Emptied OutputPreviewSlot, Emptied DownloadSlot] w))"
  by (simp add: cipher_run_def Let_def)

lemma zip_run_invalid:
  "zip_validate r = Some m \<Longrightarrow>
   zip_run H r s w =
     (s\<lparr>output_zip_content := None, output_zip_filename := None, zip_operation_status := None\<rparr>,
      emit [Msg StatusSlot Error m]
        (emit [Msg StatusSlot Info ''Processing...'', Emptied DownloadSlot] w))"
  by (simp add: zip_run_def Let_def)

lemma cipher_validate_Some:
  "password r = [] \<or> (operation = Encrypt \<and> password r \<noteq> password_confirm r) \<or>
     output_filename_user r = [] \<Longrightarrow> \<exists>m. cipher_validate operation r = Some m"
  by (auto simp: cipher_validate_def)

lemma zip_validate_Some:
  "password r = [] \<or> password r \<noteq> password_confirm r \<or> output_filename_user r = [] \<Longrightarrow>
     \<exists>m. zip_validate r = Some m"
  by (auto simp: zip_validate_def)

text \<open>
  Claim C2. In either page, a request with an empty password, with a confirmation that
  differs from the password (on the cipher page only when encrypting), or with an empty
  output filename ends with a validation error in the status placeholder: no directory
  has been created by \<^verbatim>\<open>tempfile.mkdtemp\<close>, no process has been run, the files are
  untouched and the operation status stays unset.
\<close>

theorem validation_precedes_workspace_and_process:
  "((password r = [] \<or> (operation = Encrypt \<and> password r \<noteq> password_confirm r) \<or>
       output_filename_user r = []) \<longrightarrow>
      procs (snd (cipher_run L H operation r s w)) = procs w \<and>
      tmpdirs (snd (cipher_run L H operation r s w)) = tmpdirs w \<and>
      disk (snd (cipher_run L H operation r s w)) = disk w \<and>
      operation_status (fst (cipher_run L H operation r s w)) = None \<and>
      (\<exists>m. ui (snd (cipher_run L H operation r s w)) =
             ui w @ [Msg StatusSlot Info (''Processing '' @ op_name operation @ ''...''),
                     Emptied OutputPreviewSlot, Emptied DownloadSlot, Msg StatusSlot Error m]))
   \<and>
   ((password r = [] \<or> password r \<noteq> password_confirm r \<or> output_filename_user r = []) \<longrightarrow>
      procs (snd (zip_run H r z w)) = procs w \<and>
      tmpdirs (snd (zip_run H r z w)) = tmpdirs w \<and>
      disk (snd (zip_run H r z w)) = disk w \<and>
      zip_operation_status (fst (zip_run H r z w)) = None \<and>
      (\<exists>m. ui (snd (zip_run H r z w)) =
             ui w @ [Msg StatusSlot Info ''Processing...'', Emptied DownloadSlot,
                     Msg StatusSlot Error m]))"
proof (intro conjI impI)
  assume "password r = [] \<or> (operation = Encrypt \<and> password r \<noteq> password_confirm r) \<or>
       output_filename_user r = []"
  then obtain m where m: "cipher_validate operation r = Some m"
    using cipher_validate_Some by blast
  note eq = cipher_run_invalid [OF m, of L H s w]
  show "procs (snd (cipher_run L H operation r s w)) = procs w" by (simp add: eq emit_def)
  show "tmpdirs (snd (cipher_run L H operation r s w)) = tmpdirs w" by (simp add: eq emit_def)
  show "disk (snd (cipher_run L H operation r s w)) = disk w" by (simp add: eq emit_def)
  show "operation_status (fst (cipher_run L H operation r s w)) = None" by (simp add: eq)
  show "\<exists>m. ui (snd (cipher_run L H operation r s w)) =
             ui w @ [Msg StatusSlot Info (''Processing '' @ op_name operation @ ''...''),
                     Emptied OutputPreviewSlot, Emptied DownloadSlot, Msg StatusSlot Error m]"
    by (simp add: eq emit_def)
next
  assume "password r = [] \<or> password r \<noteq> password_confirm r \<or> output_filename_user r = []"
  then obtain m where m: "zip_validate r = Some m"
    using zip_validate_Some by blast
  note eq = zip_run_invalid [OF m, of H z w]
  show "procs (snd (zip_run H r z w)) = procs w" by (simp add: eq emit_def)
  show "tmpdirs (snd (zip_run H r z w)) = tmpdirs w" by (simp add: eq emit_def)
  show "disk (snd (zip_run H r z w)) = disk w" by (simp add: eq emit_def)
  show "zip_operation_status (fst (zip_run H r z w)) = None" by (simp add: eq)
  show "\<exists>m. ui (snd (zip_run H r z w)) =
             ui w @ [Msg StatusSlot Info ''Processing...'', Emptied DownloadSlot,
                     Msg StatusSlot Error m]"
    by (simp add: eq emit_def)
qed

theorem validation_precedes_workspace_and_process_witness:
  "password mismatch_request \<noteq> password_confirm mismatch_request \<and>
   procs (snd (cipher_run demo_lib demo_host Encrypt mismatch_request fresh_cipher_session empty_world)) = [] \<and>
   tmpdirs (snd (cipher_run demo_lib demo_host Encrypt mismatch_request fresh_cipher_session empty_world)) = [] \<and>
   procs (snd (zip_run demo_host mismatch_request fresh_zip_session empty_world)) = [] \<and>
   tmpdirs (snd (zip_run demo_host mismatch_request fresh_zip_session empty_world)) = []"
  using validation_precedes_workspace_and_process
    [of mismatch_request Encrypt demo_lib demo_host fresh_cipher_session empty_world fresh_zip_session]
  by (simp add: mismatch_request_def empty_world_def)

section \<open>The process wrappers\<close>

lemma openssl_procs:
  "procs (snd (run_openssl_command H args pw w)) =
     procs w @ [\<lparr>argv = (OPENSSL_COMMAND # args) @ [''-pass'', ''pass:'' @ pw], timeout = 60,
                 ended = fst (subprocess_run H ((OPENSSL_COMMAND # args) @ [''-pass'', ''pass:'' @ pw]) 60 (disk w)),
                 fs_after = snd (subprocess_run H ((OPENSSL_COMMAND # args) @ [''-pass'', ''pass:'' @ pw]) 60 (disk w))\<rparr>]"
  by (simp add: run_openssl_command_def spawn_def emit_def Let_def split: prod.splits completion.splits)


lemma openssl_tmpdirs: "tmpdirs (snd (run_openssl_command H args pw w)) = tmpdirs w"
  by (simp add: run_openssl_command_def spawn_def emit_def Let_def split: prod.splits completion.splits)


lemma openssl_timeout:
  "fst (subprocess_run H ((OPENSSL_COMMAND # args) @ [''-pass'', ''pass:'' @ pw]) 60 (disk w)) = TimeoutExpired \<Longrightarrow>
   fst (run_openssl_command H args pw w) = (False, [], ''Timeout expired'') \<and>
   ui (snd (run_openssl_command H args pw w)) =
     ui w @ [Msg Page Error ''OpenSSL command timed out after 60 seconds.'']"
  by (cases "subprocess_run H ((OPENSSL_COMMAND # args) @ [''-pass'', ''pass:'' @ pw]) 60 (disk w)")
     (simp add: run_openssl_command_def spawn_def emit_def)

lemma zip_procs:
  "procs (snd (run_zip_command H args pw w)) =
     procs w @ [\<lparr>argv = ZIP_COMMAND # args, timeout = 120,
                 ended = fst (subprocess_run H (ZIP_COMMAND # args) 120 (disk w)),
                 fs_after = snd (subprocess_run H (ZIP_COMMAND # args) 120 (disk w))\<rparr>]"
  by (simp add: run_zip_command_def spawn_def emit_def Let_def split: prod.splits completion.splits)

lemma zip_disk:
  "disk (snd (run_zip_command H args pw w)) = snd (subprocess_run H (ZIP_COMMAND # args) 120 (disk w))"
  by (simp add: run_zip_command_def spawn_def emit_def Let_def split: prod.splits completion.splits)

lemma zip_tmpdirs: "tmpdirs (snd (run_zip_command H args pw w)) = tmpdirs w"
  by (simp add: run_zip_command_def spawn_def emit_def Let_def split: prod.splits completion.splits)

lemma zip_success:
  "fst (fst (run_zip_command H args pw w)) =
     (\<exists>out err. fst (subprocess_run H (ZIP_COMMAND # args) 120 (disk w)) = Completed 0 out err)"
  by (simp add: run_zip_command_def spawn_def emit_def Let_def split: prod.splits completion.splits)

lemma zip_timeout:
  "fst (subprocess_run H (ZIP_COMMAND # args) 120 (disk w)) = TimeoutExpired \<Longrightarrow>
   fst (run_zip_command H args pw w) = (False, [], ''Timeout expired'') \<and>
   ui (snd (run_zip_command H args pw w)) =
     ui w @ [Msg Page Error ''Zip command timed out after 120 seconds.'']"
  by (cases "subprocess_run H (ZIP_COMMAND # args) 120 (disk w)")
     (simp add: run_zip_command_def spawn_def emit_def)

text \<open>
  Claim C4. Every call of \<^verbatim>\<open>run_openssl_command\<close> runs exactly one process, with a time
  limit of 60 seconds, and every call of \<^verbatim>\<open>run_zip_command\<close> runs exactly one, with a
  limit of 120 seconds. When the limit is exceeded (\<^verbatim>\<open>subprocess.run\<close> has then killed the
  child and raised \<^verbatim>\<open>TimeoutExpired\<close>), the wrapper returns an ordinary result whose
  success flag is false and whose diagnostic is \<^verbatim>\<open>Timeout expired\<close>, and it renders the
  timeout error; nothing is raised to the caller.
\<close>

theorem process_timeout_bounded:
  "(\<exists>p. procs (snd (run_openssl_command H args pw w)) = procs w @ [p] \<and> timeout p = 60 \<and>
        (ended p = TimeoutExpired \<longrightarrow>
           fst (run_openssl_command H args pw w) = (False, [], ''Timeout expired'') \<and>
           ui (snd (run_openssl_command H args pw w)) =
             ui w @ [Msg Page Error ''OpenSSL command timed out after 60 seconds.'']))
   \<and>
   (\<exists>p. procs (snd (run_zip_command H zargs pw w)) = procs w @ [p] \<and> timeout p = 120 \<and>
        (ended p = TimeoutExpired \<longrightarrow>
           fst (run_zip_command H zargs pw w) = (False, [], ''Timeout expired'') \<and>
           ui (snd (run_zip_command H zargs pw w)) =
             ui w @ [Msg Page Error ''Zip command timed out after 120 seconds.'']))"
proof (rule conjI)
  show "\<exists>p. procs (snd (run_openssl_command H args pw w)) = procs w @ [p] \<and> timeout p = 60 \<and>
        (ended p = TimeoutExpired \<longrightarrow>
           fst (run_openssl_command H args pw w) = (False, [], ''Timeout expired'') \<and>
           ui (snd (run_openssl_command H args pw w)) =
             ui w @ [Msg Page Error ''OpenSSL command timed out after 60 seconds.''])"
    using openssl_timeout [where H = H and args = args and pw = pw and w = w] by (simp add: openssl_procs)
  show "\<exists>p. procs (snd (run_zip_command H zargs pw w)) = procs w @ [p] \<and> timeout p = 120 \<and>
        (ended p = TimeoutExpired \<longrightarrow>
           fst (run_zip_command H zargs pw w) = (False, [], ''Timeout expired'') \<and>
           ui (snd (run_zip_command H zargs pw w)) =
             ui w @ [Msg Page Error ''Zip command timed out after 120 seconds.''])"
    using zip_timeout [where H = H and args = zargs and pw = pw and w = w] by (simp add: zip_procs)
qed

theorem process_timeout_bounded_witness:
  "map ended (procs (snd (run_openssl_command stuck_host [''enc''] ''pw'' empty_world))) = [TimeoutExpired] \<and>
   map timeout (procs (snd (run_openssl_command stuck_host [''enc''] ''pw'' empty_world))) = [60] \<and>
   fst (run_openssl_command stuck_host [''enc''] ''pw'' empty_world) = (False, [], ''Timeout expired'') \<and>
   map ended (procs (snd (run_zip_command stuck_host [''-j''] ''pw'' empty_world))) = [TimeoutExpired] \<and>
   map timeout (procs (snd (run_zip_command stuck_host [''-j''] ''pw'' empty_world))) = [120] \<and>
   fst (run_zip_command stuck_host [''-j''] ''pw'' empty_world) = (False, [], ''Timeout expired'')"
  using process_timeout_bounded [where H = stuck_host and args = "[''enc'']" and pw = "''pw''"
      and w = empty_world and zargs = "[''-j'']"]
  by (simp add: run_openssl_command_def run_zip_command_def spawn_def emit_def stuck_host_def
      empty_world_def)

text \<open>
  Claim C7. When the \<^verbatim>\<open>zip\<close> process exits with a code other than zero,
  \<^verbatim>\<open>run_zip_command\<close> fails and renders one error. If the standard error text, in lower
  case, contains \<^verbatim>\<open>nothing to do\<close>, the error is the "Nothing to zip. Check input file
  path." message followed by the stripped standard error text; otherwise it is the
  generic message with the same exit code and text. The two messages are never equal.
\<close>

theorem zip_nothing_to_do_diagnostic:
  assumes "subprocess_run H (ZIP_COMMAND # args) 120 (disk w) = (Completed rc out err, fs')"
      and "rc \<noteq> 0"
  shows "fst (run_zip_command H args pw w) = (False, strip out, strip err) \<and>
         ui (snd (run_zip_command H args pw w)) =
           ui w @ [Msg Page Error
             (if contains ''nothing to do'' (lower err)
              then ''Zip Error (Exit Code '' @ str_int rc @
                   ''): Nothing to zip. Check input file path.'' @ NL @ ''```'' @ NL @
                   strip err @ NL @ ''```''
              else ''Zip Error (Exit Code '' @ str_int rc @ ''):'' @ NL @ ''```'' @ NL @
                   strip err @ NL @ ''```'')] \<and>
         ''Zip Error (Exit Code '' @ str_int rc @
            ''): Nothing to zip. Check input file path.'' @ NL @ ''```'' @ NL @ strip err @ NL @ ''```''
         \<noteq> ''Zip Error (Exit Code '' @ str_int rc @ ''):'' @ NL @ ''```'' @ NL @
             strip err @ NL @ ''```''"
  using assms
  by (simp add: run_zip_command_def spawn_def emit_def zip_nothing_msg_def zip_error_msg_def)

theorem zip_nothing_to_do_diagnostic_witness:
  "ui (snd (run_zip_command demo_host [''-j'', ''-e'', ''-P'', ''pw'', ''/tmp/w/out.zip'', ''/tmp/w/missing'']
        ''pw'' empty_world)) =
     [Msg Page Error (''Zip Error (Exit Code 12): Nothing to zip. Check input file path.'' @ NL @
        ''```'' @ NL @ ''zip error: Nothing to do!'' @ NL @ ''```'')]"
  using zip_nothing_to_do_diagnostic [where H = demo_host and w = empty_world and pw = "''pw''"
    and args = "[''-j'', ''-e'', ''-P'', ''pw'', ''/tmp/w/out.zip'', ''/tmp/w/missing'']"
    and rc = 12 and out = "[]" and err = "''zip error: Nothing to do!'' @ NL" and fs' = Map.empty]
  by (simp add: demo_host_def demo_tool_def empty_world_def ZIP_COMMAND_def text_eval)

section \<open>How the run blocks use the host\<close>

lemma emit_simps [simp]:
  "disk (emit es w) = disk w" "tmpdirs (emit es w) = tmpdirs w" "procs (emit es w) = procs w"
  "ui (emit es w) = ui w @ es"
  by (simp_all add: emit_def)

lemma openssl_no_fault:
  "run_openssl_command (H\<lparr>rmtree_fault := f\<rparr>) args pw w = run_openssl_command H args pw w"
  by (simp add: run_openssl_command_def spawn_def)

lemma zip_no_fault:
  "run_zip_command (H\<lparr>rmtree_fault := f\<rparr>) args pw w = run_zip_command H args pw w"
  by (simp add: run_zip_command_def spawn_def)

lemma cleanup_result:
  assumes "d \<noteq> []"
  shows "disk (cleanup H warning (Some d) w) d = None \<or>
         (\<exists>e. rmtree_fault H d (disk (cleanup H warning (Some d) w)) = Some e \<and>
              ui (cleanup H warning (Some d) w) = ui w @ [Msg Page Warning (warning d e)])"
  using assms
  by (cases "rmtree_fault H d (disk w)")
     (auto simp: cleanup_def os_path_exists_def rmtree_def emit_def)

lemma cleanup_frame:
  "tmpdirs (cleanup H warning td w) = tmpdirs w \<and> procs (cleanup H warning td w) = procs w"
  by (auto simp: cleanup_def emit_def split: option.splits)

lemma cipher_except_frame:
  "tmpdirs (snd (cipher_except e s w)) = tmpdirs w \<and> procs (snd (cipher_except e s w)) = procs w \<and>
   disk (snd (cipher_except e s w)) = disk w"
  by (auto simp: cipher_except_def emit_def split: option.splits)

lemma zip_except_frame:
  "tmpdirs (snd (zip_except e s w)) = tmpdirs w \<and> procs (snd (zip_except e s w)) = procs w \<and>
   disk (snd (zip_except e s w)) = disk w"
  by (auto simp: zip_except_def emit_def split: option.splits)

lemma cipher_outcome_frame:
  "tmpdirs (snd (snd (cipher_outcome L operation r p success s w))) = tmpdirs w \<and>
   procs (snd (snd (cipher_outcome L operation r p success s w))) = procs w"
  by (auto simp: cipher_outcome_def emit_def Let_def split: sum.splits)

lemma zip_outcome_frame:
  "tmpdirs (snd (snd (zip_outcome actual p success s w))) = tmpdirs w \<and>
   procs (snd (snd (zip_outcome actual p success s w))) = procs w"
  by (auto simp: zip_outcome_def emit_def Let_def split: sum.splits)

lemma cipher_try_tmpdirs:
  "tmpdirs (snd (snd (snd (cipher_try L H operation r s w)))) =
     (case mkdtemp H (disk w) of Inl e \<Rightarrow> tmpdirs w | Inr d \<Rightarrow> tmpdirs w @ [d])"
  by (simp add: cipher_try_def make_tmpdir_def emit_def Let_def split_beta cipher_outcome_frame
      openssl_tmpdirs split: sum.splits)

lemma zip_try_tmpdirs:
  "tmpdirs (snd (snd (snd (zip_try H r actual s w)))) =
     (case mkdtemp H (disk w) of Inl e \<Rightarrow> tmpdirs w | Inr d \<Rightarrow> tmpdirs w @ [d])"
  by (simp add: zip_try_def make_tmpdir_def emit_def Let_def split_beta zip_outcome_frame
      zip_tmpdirs split: sum.splits)

lemma cipher_try_temp_dir:
  "fst (snd (cipher_try L H operation r s w)) =
     (case mkdtemp H (disk w) of Inl e \<Rightarrow> None | Inr d \<Rightarrow> Some d)"
  by (simp add: cipher_try_def Let_def split_beta split: sum.splits)

lemma zip_try_temp_dir:
  "fst (snd (zip_try H r actual s w)) =
     (case mkdtemp H (disk w) of Inl e \<Rightarrow> None | Inr d \<Rightarrow> Some d)"
  by (simp add: zip_try_def Let_def split_beta split: sum.splits)


lemma cipher_run_tmpdirs:
  "tmpdirs (snd (cipher_run L H operation r s w)) =
     (if cipher_validate operation r = None
      then (case mkdtemp H (disk w) of Inl e \<Rightarrow> tmpdirs w | Inr d \<Rightarrow> tmpdirs w @ [d])
      else tmpdirs w)"
  by (simp add: cipher_run_def Let_def split_beta cleanup_frame cipher_except_frame
      cipher_try_tmpdirs split: option.splits sum.splits)

lemma zip_run_tmpdirs:
  "tmpdirs (snd (zip_run H r s w)) =
     (if zip_validate r = None
      then (case mkdtemp H (disk w) of Inl e \<Rightarrow> tmpdirs w | Inr d \<Rightarrow> tmpdirs w @ [d])
      else tmpdirs w)"
  by (simp add: zip_run_def Let_def split_beta cleanup_frame zip_except_frame
      zip_try_tmpdirs split: option.splits sum.splits)

lemma cipher_run_cleaned:
  assumes "tmpdirs (snd (cipher_run L H operation r s w)) = tmpdirs w @ [d]"
  shows "\<exists>w2. snd (cipher_run L H operation r s w) = cleanup H cipher_cleanup_warning (Some d) w2"
proof -
  from assms have valid: "cipher_validate operation r = None"
    by (simp add: cipher_run_tmpdirs split: if_splits)
  with assms have tmp: "mkdtemp H (disk w) = Inr d"
    by (simp add: cipher_run_tmpdirs split: sum.splits)
  show ?thesis
    using valid tmp
    by (auto simp add: cipher_run_def Let_def split_beta cipher_try_temp_dir)
qed

lemma zip_run_cleaned:
  assumes "tmpdirs (snd (zip_run H r s w)) = tmpdirs w @ [d]"
  shows "\<exists>w2. snd (zip_run H r s w) = cleanup H zip_cleanup_warning (Some d) w2"
proof -
  from assms have valid: "zip_validate r = None"
    by (simp add: zip_run_tmpdirs split: if_splits)
  with assms have tmp: "mkdtemp H (disk w) = Inr d"
    by (simp add: zip_run_tmpdirs split: sum.splits)
  show ?thesis
    using valid tmp
    by (auto simp add: zip_run_def Let_def split_beta zip_try_temp_dir)
qed

lemma cleanup_last:
  assumes "d \<noteq> []"
  shows "disk (cleanup H warning (Some d) w) d = None \<or>
         (\<exists>e. rmtree_fault H d (disk (cleanup H warning (Some d) w)) = Some e \<and>
              last (ui (cleanup H warning (Some d) w)) = Msg Page Warning (warning d e))"
  using cleanup_result [OF assms, of H warning w] by auto

lemma cipher_try_no_fault:
  "cipher_try L (H\<lparr>rmtree_fault := f\<rparr>) operation r s w = cipher_try L H operation r s w"
  by (simp add: cipher_try_def openssl_no_fault Let_def split_beta split: sum.splits)

lemma zip_try_no_fault:
  "zip_try (H\<lparr>rmtree_fault := f\<rparr>) r actual s w = zip_try H r actual s w"
  by (simp add: zip_try_def zip_no_fault Let_def split_beta split: sum.splits)

text \<open>Facts that run the two pages on a concrete host.\<close>

lemmas demo_eval = demo_host_def stuck_host_def demo_tool_def demo_request_def
  fresh_cipher_session_def fresh_zip_session_def empty_world_def demo_shift_def demo_unshift_def

lemma stuck_zip_dir:
  "disk (snd (zip_run stuck_host demo_request fresh_zip_session empty_world)) ''/tmp/tmpb2'' = Some Dir"
  by (simp add: zip_run_def zip_try_def zip_outcome_def zip_except_def zip_validate_def
      zip_args_def zip_cleanup_warning_def run_zip_command_def actual_output_filename_def
      cleanup_def make_tmpdir_def spawn_def os_path_join_def write_file_def
      os_path_exists_def os_remove_quiet_def ZIP_COMMAND_def demo_eval text_eval Let_def)

text \<open>
  Claim C3. When a run block has created a temporary directory \<open>d\<close>, then after the
  block, whether the operation succeeded, failed or raised, either \<open>d\<close> no longer
  exists, or removing it failed and the last thing rendered is a warning naming \<open>d\<close> and
  the failure. A failing removal changes nothing else: the session state the block
  leaves is the one it leaves on a host where removal never fails.
\<close>

theorem workspace_removed_or_warning:
  "(tmpdirs (snd (cipher_run L H operation r s w)) = tmpdirs w @ [d] \<and> d \<noteq> [] \<longrightarrow>
      disk (snd (cipher_run L H operation r s w)) d = None \<or>
      (\<exists>e. rmtree_fault H d (disk (snd (cipher_run L H operation r s w))) = Some e \<and>
           last (ui (snd (cipher_run L H operation r s w))) =
             Msg Page Warning (''Could not automatically clean up temporary directory '' @ d @
               '': '' @ str_exc e)))
   \<and> fst (cipher_run L H operation r s w) =
       fst (cipher_run L (H\<lparr>rmtree_fault := \<lambda>d fs. None\<rparr>) operation r s w)
   \<and>
   (tmpdirs (snd (zip_run H r z w)) = tmpdirs w @ [d] \<and> d \<noteq> [] \<longrightarrow>
      disk (snd (zip_run H r z w)) d = None \<or>
      (\<exists>e. rmtree_fault H d (disk (snd (zip_run H r z w))) = Some e \<and>
           last (ui (snd (zip_run H r z w))) =
             Msg Page Warning (''Could not clean up temp dir '' @ d @ '': '' @ str_exc e)))
   \<and> fst (zip_run H r z w) = fst (zip_run (H\<lparr>rmtree_fault := \<lambda>d fs. None\<rparr>) r z w)"
proof (intro conjI impI)
  assume a: "tmpdirs (snd (cipher_run L H operation r s w)) = tmpdirs w @ [d] \<and> d \<noteq> []"
  then obtain w2 where "snd (cipher_run L H operation r s w) =
      cleanup H cipher_cleanup_warning (Some d) w2"
    using cipher_run_cleaned by blast
  with a show "disk (snd (cipher_run L H operation r s w)) d = None \<or>
      (\<exists>e. rmtree_fault H d (disk (snd (cipher_run L H operation r s w))) = Some e \<and>
           last (ui (snd (cipher_run L H operation r s w))) =
             Msg Page Warning (''Could not automatically clean up temporary directory '' @ d @
               '': '' @ str_exc e))"
    using cleanup_last [of d H cipher_cleanup_warning w2]
    by (simp add: cipher_cleanup_warning_def)
next
  show "fst (cipher_run L H operation r s w) =
       fst (cipher_run L (H\<lparr>rmtree_fault := \<lambda>d fs. None\<rparr>) operation r s w)"
    by (simp add: cipher_run_def Let_def split_beta cipher_try_no_fault split: option.splits)
next
  assume a: "tmpdirs (snd (zip_run H r z w)) = tmpdirs w @ [d] \<and> d \<noteq> []"
  then obtain w2 where "snd (zip_run H r z w) = cleanup H zip_cleanup_warning (Some d) w2"
    using zip_run_cleaned by blast
  with a show "disk (snd (zip_run H r z w)) d = None \<or>
      (\<exists>e. rmtree_fault H d (disk (snd (zip_run H r z w))) = Some e \<and>
           last (ui (snd (zip_run H r z w))) =
             Msg Page Warning (''Could not clean up temp dir '' @ d @ '': '' @ str_exc e))"
    using cleanup_last [of d H zip_cleanup_warning w2]
    by (simp add: zip_cleanup_warning_def)
next
  show "fst (zip_run H r z w) = fst (zip_run (H\<lparr>rmtree_fault := \<lambda>d fs. None\<rparr>) r z w)"
    by (simp add: zip_run_def Let_def split_beta zip_try_no_fault split: option.splits)
qed

theorem workspace_removed_or_warning_witness:
  "tmpdirs (snd (cipher_run demo_lib demo_host Encrypt demo_request fresh_cipher_session empty_world))
     = [''/tmp/tmpa1''] \<and>
   disk (snd (cipher_run demo_lib demo_host Encrypt demo_request fresh_cipher_session empty_world))
     ''/tmp/tmpa1'' = None \<and>
   tmpdirs (snd (zip_run stuck_host demo_request fresh_zip_session empty_world)) = [''/tmp/tmpb2''] \<and>
   last (ui (snd (zip_run stuck_host demo_request fresh_zip_session empty_world))) =
     Msg Page Warning ''Could not clean up temp dir /tmp/tmpb2: [Errno 13] Permission denied''"
proof -
  have h: "tmpdirs (snd (cipher_run demo_lib demo_host Encrypt demo_request fresh_cipher_session
      empty_world)) = tmpdirs empty_world @ [''/tmp/tmpa1''] \<and> ''/tmp/tmpa1'' \<noteq> []"
    by (simp add: cipher_run_tmpdirs cipher_validate_def demo_eval)
  have nofault: "rmtree_fault demo_host d fs = None" for d fs
    by (simp add: demo_host_def)
  have k: "tmpdirs (snd (zip_run stuck_host demo_request fresh_zip_session empty_world)) =
      tmpdirs empty_world @ [''/tmp/tmpb2''] \<and> ''/tmp/tmpb2'' \<noteq> []"
    by (simp add: zip_run_tmpdirs zip_validate_def demo_eval)
  have fault: "rmtree_fault stuck_host d fs = Some (Exc ''[Errno 13] Permission denied'')" for d fs
    by (simp add: stuck_host_def)
  from h nofault k fault stuck_zip_dir
    workspace_removed_or_warning [where L = demo_lib and H = demo_host and operation = Encrypt
      and r = demo_request and s = fresh_cipher_session and w = empty_world
      and d = "''/tmp/tmpa1''"]
    workspace_removed_or_warning [where H = stuck_host and r = demo_request
      and z = fresh_zip_session and w = empty_world and d = "''/tmp/tmpb2''"]
  show ?thesis
    by (simp add: empty_world_def)
qed

section \<open>What a run block stores and which process it runs\<close>


lemma zip_outcome_content:
  "output_zip_content s = None \<Longrightarrow>
   output_zip_content (fst (snd (zip_outcome actual p success s w))) =
     (if success then (case disk w p of Some (File b) \<Rightarrow> Some b | _ \<Rightarrow> None) else None)"
  by (simp add: zip_outcome_def read_file_def os_path_exists_def Let_def
      split: option.splits node.splits)


lemma zip_except_content:
  "output_zip_content (fst (zip_except e s w)) = output_zip_content s"
  by (simp add: zip_except_def split: option.splits)


lemma cipher_try_procs:
  "procs (snd (snd (snd (cipher_try L H operation r s w)))) =
     (case staged H r (disk w) of
        None \<Rightarrow> procs w
      | Some (d, fs2) \<Rightarrow>
          procs w @ [\<lparr>argv = cipher_command operation r d, timeout = 60,
                      ended = fst (subprocess_run H (cipher_command operation r d) 60 fs2),
                      fs_after = snd (subprocess_run H (cipher_command operation r d) 60 fs2)\<rparr>])"
  by (simp add: cipher_try_def staged_def cipher_command_def make_tmpdir_def Let_def split_beta
      cipher_outcome_frame openssl_procs split: sum.splits)

lemma zip_try_procs:
  "procs (snd (snd (snd (zip_try H r (actual_output_filename (output_filename_user r)) s w)))) =
     (case staged H r (disk w) of
        None \<Rightarrow> procs w
      | Some (d, fs2) \<Rightarrow>
          procs w @ [\<lparr>argv = zip_command r d, timeout = 120,
                      ended = fst (subprocess_run H (zip_command r d) 120 fs2),
                      fs_after = snd (subprocess_run H (zip_command r d) 120 fs2)\<rparr>])"
  by (simp add: zip_try_def staged_def zip_command_def make_tmpdir_def Let_def split_beta
      zip_outcome_frame zip_procs split: sum.splits)

lemma cipher_run_procs:
  "procs (snd (cipher_run L H operation r s w)) =
     (if cipher_validate operation r = None
      then (case staged H r (disk w) of
              None \<Rightarrow> procs w
            | Some (d, fs2) \<Rightarrow>
                procs w @ [\<lparr>argv = cipher_command operation r d, timeout = 60,
                   ended = fst (subprocess_run H (cipher_command operation r d) 60 fs2),
                   fs_after = snd (subprocess_run H (cipher_command operation r d) 60 fs2)\<rparr>])
      else procs w)"
  by (simp add: cipher_run_def Let_def split_beta cleanup_frame cipher_except_frame
      cipher_try_procs split: option.splits)

lemma zip_run_procs:
  "procs (snd (zip_run H r s w)) =
     (if zip_validate r = None
      then (case staged H r (disk w) of
              None \<Rightarrow> procs w
            | Some (d, fs2) \<Rightarrow>
                procs w @ [\<lparr>argv = zip_command r d, timeout = 120,
                   ended = fst (subprocess_run H (zip_command r d) 120 fs2),
                   fs_after = snd (subprocess_run H (zip_command r d) 120 fs2)\<rparr>])
      else procs w)"
  by (simp add: zip_run_def Let_def split_beta cleanup_frame zip_except_frame
      zip_try_procs split: option.splits)

lemma staged_tmpdir: "staged H r fs = Some (d, fs2) \<Longrightarrow> mkdtemp H fs = Inr d"
  by (simp add: staged_def split: sum.splits)


lemma zip_try_content:
  "output_zip_content s = None \<Longrightarrow>
   output_zip_content (fst (snd (snd (zip_try H r (actual_output_filename (output_filename_user r)) s w)))) =
     (case staged H r (disk w) of
        None \<Rightarrow> None
      | Some (d, fs2) \<Rightarrow>
          captured (subprocess_run H (zip_command r d) 120 fs2)
            (os_path_join d (actual_output_filename (output_filename_user r))))"
  by (auto simp add: zip_try_def staged_def zip_command_def make_tmpdir_def Let_def split_beta
      zip_outcome_content zip_success zip_disk captured_def
      split: sum.splits completion.splits option.splits node.splits)


lemma zip_run_content:
  "output_zip_content (fst (zip_run H r s w)) =
     (if zip_validate r = None
      then (case staged H r (disk w) of
              None \<Rightarrow> None
            | Some (d, fs2) \<Rightarrow>
                captured (subprocess_run H (zip_command r d) 120 fs2)
                  (os_path_join d (actual_output_filename (output_filename_user r))))
      else None)"
  by (simp add: zip_run_def Let_def split_beta zip_except_content zip_try_content
      split: option.splits)













lemma cipher_command_eq:
  "cipher_command operation r d =
     [''openssl'', ''enc'', ''-aes-256-cbc'', ''-pbkdf2''] @
     (case operation of Decrypt \<Rightarrow> [''-d''] | Encrypt \<Rightarrow> [''-p'']) @
     [''-in'', os_path_join d (uploaded_name r), ''-out'', os_path_join d (output_filename_user r),
      ''-pass'', ''pass:'' @ password r]"
  by (simp add: cipher_command_def cipher_args_def OPENSSL_COMMAND_def ENCRYPTION_CIPHER_def)

lemma zip_command_eq:
  "zip_command r d =
     [''zip'', ''-j'', ''-e'', ''-P'', password r,
      os_path_join d (actual_output_filename (output_filename_user r)),
      os_path_join d (uploaded_name r)]"
  by (simp add: zip_command_def zip_args_def ZIP_COMMAND_def)

lemma cipher_run_spawned:
  assumes "procs (snd (cipher_run L H operation r s w)) \<noteq> procs w"
  shows "\<exists>d p. tmpdirs (snd (cipher_run L H operation r s w)) = tmpdirs w @ [d] \<and>
           procs (snd (cipher_run L H operation r s w)) = procs w @ [p] \<and>
           argv p = cipher_command operation r d"
proof -
  from assms have valid: "cipher_validate operation r = None"
    by (simp add: cipher_run_procs split: if_splits)
  with assms obtain d fs2 where st: "staged H r (disk w) = Some (d, fs2)"
    by (cases "staged H r (disk w)") (auto simp: cipher_run_procs)
  then have "mkdtemp H (disk w) = Inr d"
    by (rule staged_tmpdir)
  with valid st show ?thesis
    by (simp add: cipher_run_procs cipher_run_tmpdirs)
qed

lemma zip_run_spawned:
  assumes "procs (snd (zip_run H r z w)) \<noteq> procs w"
  shows "\<exists>d p. tmpdirs (snd (zip_run H r z w)) = tmpdirs w @ [d] \<and>
           procs (snd (zip_run H r z w)) = procs w @ [p] \<and>
           argv p = zip_command r d"
proof -
  from assms have valid: "zip_validate r = None"
    by (simp add: zip_run_procs split: if_splits)
  with assms obtain d fs2 where st: "staged H r (disk w) = Some (d, fs2)"
    by (cases "staged H r (disk w)") (auto simp: zip_run_procs)
  then have "mkdtemp H (disk w) = Inr d"
    by (rule staged_tmpdir)
  with valid st show ?thesis
    by (simp add: zip_run_procs zip_run_tmpdirs)
qed

lemma demo_staged:
  "staged demo_host demo_request Map.empty =
     Some (''/tmp/tmpa1'', [''/tmp/tmpa1'' \<mapsto> Dir, ''/tmp/tmpa1/notes.txt'' \<mapsto> File [104, 105]])"
  by (simp add: staged_def demo_host_def demo_request_def write_file_def os_path_join_def text_eval)

text \<open>
  Claim C5. Whenever a run block runs a process, it runs exactly one, in the directory
  \<open>d\<close> it has just created, and the command is: for the cipher page
  \<^verbatim>\<open>openssl enc -aes-256-cbc -pbkdf2\<close>, then \<^verbatim>\<open>-d\<close> to decrypt or \<^verbatim>\<open>-p\<close> to encrypt, then
  \<^verbatim>\<open>-in <input path> -out <output path>\<close>, then \<^verbatim>\<open>-pass pass:<password>\<close> added by
  \<^verbatim>\<open>run_openssl_command\<close>; for the archive page
  \<^verbatim>\<open>zip -j -e -P <password> <output path> <input path>\<close>.
\<close>

theorem argument_vectors_exact:
  "(procs (snd (cipher_run L H operation r s w)) \<noteq> procs w \<longrightarrow>
      (\<exists>d p. tmpdirs (snd (cipher_run L H operation r s w)) = tmpdirs w @ [d] \<and>
             procs (snd (cipher_run L H operation r s w)) = procs w @ [p] \<and>
             argv p =
               [''openssl'', ''enc'', ''-aes-256-cbc'', ''-pbkdf2''] @
               (case operation of Decrypt \<Rightarrow> [''-d''] | Encrypt \<Rightarrow> [''-p'']) @
               [''-in'', os_path_join d (uploaded_name r),
                ''-out'', os_path_join d (output_filename_user r),
                ''-pass'', ''pass:'' @ password r]))
   \<and>
   (procs (snd (zip_run H r z w)) \<noteq> procs w \<longrightarrow>
      (\<exists>d p. tmpdirs (snd (zip_run H r z w)) = tmpdirs w @ [d] \<and>
             procs (snd (zip_run H r z w)) = procs w @ [p] \<and>
             argv p =
               [''zip'', ''-j'', ''-e'', ''-P'', password r,
                os_path_join d (actual_output_filename (output_filename_user r)),
                os_path_join d (uploaded_name r)]))"
  using cipher_run_spawned [of L H operation r s w] zip_run_spawned [of H r z w]
  by (simp add: cipher_command_eq zip_command_eq)

theorem argument_vectors_exact_witness:
  "(\<exists>p. procs (snd (cipher_run demo_lib demo_host Decrypt demo_request fresh_cipher_session
            empty_world)) = [p] \<and>
        argv p = [''openssl'', ''enc'', ''-aes-256-cbc'', ''-pbkdf2'', ''-d'',
                  ''-in'', ''/tmp/tmpa1/notes.txt'', ''-out'', ''/tmp/tmpa1/notes.enc'',
                  ''-pass'', ''pass:secret123'']) \<and>
   (\<exists>p. procs (snd (zip_run demo_host demo_request fresh_zip_session empty_world)) = [p] \<and>
        argv p = [''zip'', ''-j'', ''-e'', ''-P'', ''secret123'',
                  ''/tmp/tmpa1/notes.enc.zip'', ''/tmp/tmpa1/notes.txt''])"
proof -
  have c: "procs (snd (cipher_run demo_lib demo_host Decrypt demo_request fresh_cipher_session
      empty_world)) \<noteq> procs empty_world"
    by (simp add: cipher_run_procs cipher_validate_def demo_staged empty_world_def)
       (simp add: demo_request_def)
  have z: "procs (snd (zip_run demo_host demo_request fresh_zip_session empty_world)) \<noteq>
      procs empty_world"
    by (simp add: zip_run_procs zip_validate_def demo_staged empty_world_def)
       (simp add: demo_request_def)
  have t: "tmpdirs (snd (cipher_run demo_lib demo_host Decrypt demo_request fresh_cipher_session
      empty_world)) = [''/tmp/tmpa1'']"
    "tmpdirs (snd (zip_run demo_host demo_request fresh_zip_session empty_world)) = [''/tmp/tmpa1'']"
    by (simp_all add: cipher_run_tmpdirs zip_run_tmpdirs cipher_validate_def zip_validate_def
        demo_eval)
  from c z t
    argument_vectors_exact [where L = demo_lib and H = demo_host and operation = Decrypt
      and r = demo_request and s = fresh_cipher_session and w = empty_world
      and z = fresh_zip_session]
  show ?thesis
    by (auto simp add: empty_world_def demo_request_def os_path_join_def actual_output_filename_def
        text_eval)
qed

section \<open>The name of the archive\<close>

lemma cleanup_ui_mono: "x \<in> set (ui w) \<Longrightarrow> x \<in> set (ui (cleanup H warning td w))"
  by (auto simp: cleanup_def split: option.splits)

lemma zip_except_ui_mono: "x \<in> set (ui w) \<Longrightarrow> x \<in> set (ui (snd (zip_except e s w)))"
  by (auto simp: zip_except_def split: option.splits)

lemma zip_outcome_ui_mono:
  "x \<in> set (ui w) \<Longrightarrow> x \<in> set (ui (snd (snd (zip_outcome actual p success s w))))"
  by (auto simp: zip_outcome_def Let_def split: sum.splits)

lemma run_zip_command_ui_mono:
  "x \<in> set (ui w) \<Longrightarrow> x \<in> set (ui (snd (run_zip_command H args pw w)))"
  by (auto simp: run_zip_command_def spawn_def Let_def split_beta split: completion.splits)

lemma zip_try_ui_mono:
  "x \<in> set (ui w) \<Longrightarrow> x \<in> set (ui (snd (snd (snd (zip_try H r actual s w)))))"
  by (auto simp: zip_try_def make_tmpdir_def Let_def split_beta zip_outcome_ui_mono
      run_zip_command_ui_mono split: sum.splits)

lemma zip_outcome_download:
  assumes "output_zip_content s = None"
      and "output_zip_content (fst (snd (zip_outcome actual p success s w))) = Some b"
  shows "fst (zip_outcome actual p success s w) = None \<and>
         output_zip_filename (fst (snd (zip_outcome actual p success s w))) = Some actual \<and>
         DownloadButton DownloadSlot (''Download '' @ actual) b actual ''application/zip''
           \<in> set (ui (snd (snd (zip_outcome actual p success s w))))"
  using assms
  by (auto simp: zip_outcome_def Let_def split: sum.splits if_splits)

lemma zip_try_download:
  assumes "output_zip_content s = None"
      and "output_zip_content (fst (snd (snd (zip_try H r actual s w)))) = Some b"
  shows "fst (zip_try H r actual s w) = None \<and>
         output_zip_filename (fst (snd (snd (zip_try H r actual s w)))) = Some actual \<and>
         DownloadButton DownloadSlot (''Download '' @ actual) b actual ''application/zip''
           \<in> set (ui (snd (snd (snd (zip_try H r actual s w)))))"
  using assms
  by (auto simp: zip_try_def Let_def split_beta split: sum.splits dest: zip_outcome_download)

lemma zip_run_download:
  assumes "output_zip_content (fst (zip_run H r z w)) = Some b"
  shows "output_zip_filename (fst (zip_run H r z w)) =
           Some (actual_output_filename (output_filename_user r)) \<and>
         DownloadButton DownloadSlot
             (''Download '' @ actual_output_filename (output_filename_user r)) b
             (actual_output_filename (output_filename_user r)) ''application/zip''
           \<in> set (ui (snd (zip_run H r z w)))"
proof -
  from assms have valid: "zip_validate r = None"
    by (simp add: zip_run_content split: if_splits)
  define s0 where "s0 = z\<lparr>output_zip_content := None, output_zip_filename := None,
                  zip_operation_status := None\<rparr>"
  define w0 where "w0 = (if \<not> endswith (lower (output_filename_user r)) ''.zip''
       then emit [Msg Page Warning
              (zip_suffix_warning (actual_output_filename (output_filename_user r)))]
              (emit [Msg StatusSlot Info ''Processing...'', Emptied DownloadSlot] w)
       else emit [Msg StatusSlot Info ''Processing...'', Emptied DownloadSlot] w)"
  define t where "t = zip_try H r (actual_output_filename (output_filename_user r)) s0 w0"
  have run: "zip_run H r z w =
      (fst (zip_except (fst t) (fst (snd (snd t))) (snd (snd (snd t)))),
       cleanup H zip_cleanup_warning (fst (snd t))
         (snd (zip_except (fst t) (fst (snd (snd t))) (snd (snd (snd t))))))"
    using valid by (simp add: zip_run_def Let_def split_beta t_def s0_def w0_def)
  have s0: "output_zip_content s0 = None"
    by (simp add: s0_def)
  from assms have c: "output_zip_content (fst (snd (snd t))) = Some b"
    by (simp add: run zip_except_content)
  note d = zip_try_download [OF s0, of H r "actual_output_filename (output_filename_user r)" w0 b]
  from c d have none: "fst t = None"
    and name: "output_zip_filename (fst (snd (snd t))) =
        Some (actual_output_filename (output_filename_user r))"
    and btn: "DownloadButton DownloadSlot
             (''Download '' @ actual_output_filename (output_filename_user r)) b
             (actual_output_filename (output_filename_user r)) ''application/zip''
           \<in> set (ui (snd (snd (snd t))))"
    by (simp_all add: t_def)
  show ?thesis
    using none name btn by (simp add: run zip_except_def cleanup_ui_mono)
qed

lemma zip_run_warning:
  assumes "zip_validate r = None"
      and "\<not> endswith (lower (output_filename_user r)) ''.zip''"
  shows "Msg Page Warning (zip_suffix_warning (output_filename_user r @ ''.zip''))
           \<in> set (ui (snd (zip_run H r z w)))"
  using assms
  by (simp add: zip_run_def Let_def split_beta actual_output_filename_def cleanup_ui_mono
      zip_except_ui_mono zip_try_ui_mono)

text \<open>
  Claim C10. On the archive page the name used is the desired output filename itself
  when its lower-case form ends with \<^verbatim>\<open>.zip\<close>, and the desired name followed by
  \<^verbatim>\<open>.zip\<close> otherwise. In the second case a request that passes validation is shown a
  warning naming the new filename. The output path given to \<^verbatim>\<open>zip\<close> (argument 5 of the
  command) is this name joined to the temporary directory, and whenever archive bytes
  are stored, the stored filename and the file name of the download button are this
  name.
\<close>

theorem zip_output_name_normalised:
  "actual_output_filename (output_filename_user r) =
     (if endswith (lower (output_filename_user r)) ''.zip'' then output_filename_user r
      else output_filename_user r @ ''.zip'')
   \<and>
   (password r \<noteq> [] \<and> password r = password_confirm r \<and> output_filename_user r \<noteq> [] \<and>
    \<not> endswith (lower (output_filename_user r)) ''.zip'' \<longrightarrow>
      Msg Page Warning (zip_suffix_warning (output_filename_user r @ ''.zip''))
        \<in> set (ui (snd (zip_run H r z w))))
   \<and>
   (procs (snd (zip_run H r z w)) \<noteq> procs w \<longrightarrow>
      (\<exists>d p. tmpdirs (snd (zip_run H r z w)) = tmpdirs w @ [d] \<and>
             procs (snd (zip_run H r z w)) = procs w @ [p] \<and>
             argv p ! 5 = os_path_join d (actual_output_filename (output_filename_user r))))
   \<and>
   (output_zip_content (fst (zip_run H r z w)) = Some b \<longrightarrow>
      output_zip_filename (fst (zip_run H r z w)) =
        Some (actual_output_filename (output_filename_user r)) \<and>
      DownloadButton DownloadSlot
          (''Download '' @ actual_output_filename (output_filename_user r)) b
          (actual_output_filename (output_filename_user r)) ''application/zip''
        \<in> set (ui (snd (zip_run H r z w))))"
proof (intro conjI impI)
  show "actual_output_filename (output_filename_user r) =
     (if endswith (lower (output_filename_user r)) ''.zip'' then output_filename_user r
      else output_filename_user r @ ''.zip'')"
    by (simp add: actual_output_filename_def)
next
  assume "password r \<noteq> [] \<and> password r = password_confirm r \<and> output_filename_user r \<noteq> [] \<and>
    \<not> endswith (lower (output_filename_user r)) ''.zip''"
  then have "zip_validate r = None" and "\<not> endswith (lower (output_filename_user r)) ''.zip''"
    by (auto simp add: zip_validate_def)
  then show "Msg Page Warning (zip_suffix_warning (output_filename_user r @ ''.zip''))
        \<in> set (ui (snd (zip_run H r z w)))"
    by (rule zip_run_warning)
next
  assume "procs (snd (zip_run H r z w)) \<noteq> procs w"
  then obtain d p where "tmpdirs (snd (zip_run H r z w)) = tmpdirs w @ [d]"
      and "procs (snd (zip_run H r z w)) = procs w @ [p]" and "argv p = zip_command r d"
    using zip_run_spawned by blast
  then show "\<exists>d p. tmpdirs (snd (zip_run H r z w)) = tmpdirs w @ [d] \<and>
             procs (snd (zip_run H r z w)) = procs w @ [p] \<and>
             argv p ! 5 = os_path_join d (actual_output_filename (output_filename_user r))"
    by (auto simp add: zip_command_eq)
next
  assume c: "output_zip_content (fst (zip_run H r z w)) = Some b"
  show "output_zip_filename (fst (zip_run H r z w)) =
        Some (actual_output_filename (output_filename_user r))"
    using zip_run_download [OF c] by simp
  show "DownloadButton DownloadSlot
          (''Download '' @ actual_output_filename (output_filename_user r)) b
          (actual_output_filename (output_filename_user r)) ''application/zip''
        \<in> set (ui (snd (zip_run H r z w)))"
    using zip_run_download [OF c] by simp
qed

theorem zip_output_name_normalised_witness:
  "actual_output_filename ''Report.ZIP'' = ''Report.ZIP'' \<and>
   actual_output_filename ''notes.enc'' = ''notes.enc.zip'' \<and>
   Msg Page Warning (zip_suffix_warning ''notes.enc.zip'')
     \<in> set (ui (snd (zip_run demo_host demo_request fresh_zip_session empty_world))) \<and>
   output_zip_filename (fst (zip_run demo_host demo_request fresh_zip_session empty_world)) =
     Some ''notes.enc.zip''"
proof -
  have c: "output_zip_content (fst (zip_run demo_host demo_request fresh_zip_session empty_world))
      = Some [80, 75, 104, 105]"
    by (simp add: zip_run_content zip_validate_def empty_world_def demo_staged zip_command_eq
        captured_def)
       (simp add: demo_request_def demo_host_def demo_tool_def os_path_join_def
        actual_output_filename_def text_eval)
  from c
    zip_output_name_normalised [where H = demo_host and r = demo_request
      and z = fresh_zip_session and w = empty_world and b = "[80, 75, 104, 105]"]
    zip_output_name_normalised [where r = "demo_request\<lparr>output_filename_user := ''Report.ZIP''\<rparr>"]
  show ?thesis
    by (simp add: demo_request_def text_eval)
qed

section \<open>The file preview\<close>






section \<open>Clearing a page\<close>

text \<open>Decimal strings determine their numbers, so a new trigger value gives new keys.\<close>

lemma digit_char_inject: "d < 10 \<Longrightarrow> e < 10 \<Longrightarrow> digit_char d = digit_char e \<longleftrightarrow> d = e"
  by (simp add: digit_char_def char_of_eq_iff take_bit_eq_mod)

lemma str_nat_not_Nil: "str_nat n \<noteq> []" "[] \<noteq> str_nat n"
  by (subst str_nat.simps, simp)+

lemma str_nat_inject: "str_nat n = str_nat m \<Longrightarrow> n = m"
proof (induction n arbitrary: m rule: str_nat.induct)
  case (1 n)
  show ?case
  proof (cases "n < 10")
    case small: True
    show ?thesis
    proof (cases "m < 10")
      case True
      with small "1.prems" show ?thesis
        by (simp add: str_nat.simps [of n] str_nat.simps [of m] digit_char_inject)
    next
      case False
      with small "1.prems" show ?thesis
        by (simp add: str_nat.simps [of n] str_nat.simps [of m] str_nat_not_Nil)
    qed
  next
    case large: False
    show ?thesis
    proof (cases "m < 10")
      case True
      with large "1.prems" show ?thesis
        by (simp add: str_nat.simps [of n] str_nat.simps [of m] str_nat_not_Nil)
    next
      case False
      with large "1.prems" have eq: "str_nat (n div 10) = str_nat (m div 10)"
          and dg: "digit_char (n mod 10) = digit_char (m mod 10)"
        by (simp_all add: str_nat.simps [of n] str_nat.simps [of m])
      from "1.IH" [OF large eq] have "n div 10 = m div 10" .
      moreover from dg have "n mod 10 = m mod 10"
        by (simp add: digit_char_inject)
      ultimately show ?thesis
        by (metis div_mult_mod_eq)
    qed
  qed
qed

lemma str_nat_eq_iff: "str_nat n = str_nat m \<longleftrightarrow> n = m"
  using str_nat_inject by auto

lemma zip_clear_all_regenerates_keys:
  "set (zip_widget_keys (zip_clear_all s)) \<inter> set (zip_widget_keys s) = {} \<and>
   output_zip_content (zip_clear_all s) = None \<and> output_zip_filename (zip_clear_all s) = None \<and>
   zip_operation_status (zip_clear_all s) = None"
  by (simp add: zip_widget_keys_def zip_clear_all_def str_nat_eq_iff)

text \<open>
  Claim C9 holds on the archive page (\<open>zip_clear_all_regenerates_keys\<close>) and fails on
  the cipher page. There "Clear All" empties the three result fields, but the password
  fields keep the fixed keys \<^verbatim>\<open>pwd1\<close> and \<^verbatim>\<open>pwd2\<close>: after the clear the first field is
  rendered under the same key and shows the password typed before, while the archive
  page, rendered under its new key, shows the empty default.
\<close>

theorem cipher_clear_keeps_widget_identity:
  "cipher_clear_all used_cipher_session = fresh_cipher_session \<and>
   cipher_widget_keys (cipher_clear_all used_cipher_session) =
     cipher_widget_keys used_cipher_session \<and>
   text_input [''pwd1'' \<mapsto> ''secret123'', ''pwd2'' \<mapsto> ''secret123'']
     (cipher_widget_keys (cipher_clear_all used_cipher_session) ! 0) [] = ''secret123'' \<and>
   text_input [''zip_pwd1_0'' \<mapsto> ''secret123'', ''zip_pwd2_0'' \<mapsto> ''secret123'']
     (zip_widget_keys (zip_clear_all fresh_zip_session) ! 1) [] = []"
  by (simp add: cipher_clear_all_def used_cipher_session_def fresh_cipher_session_def
      cipher_widget_keys_def text_input_def zip_widget_keys_def zip_clear_all_def
      fresh_zip_session_def str_nat.simps digit_char_def char_eval)

section \<open>Encrypting and decrypting again\<close>










end
